theory Spec2Isabelle
  imports Main "HOL-Library.Char_ord" "HOL-Library.List_Lexorder"
begin

section \<open>Data model\<close>

text \<open>
  The document is a value decoded from JSON: \<^verbatim>\<open>nil\<close>, \<^verbatim>\<open>bool\<close>, \<^verbatim>\<open>float64\<close>,
  \<^verbatim>\<open>string\<close>, \<^verbatim>\<open>[]interface{}\<close> and \<^verbatim>\<open>map[string]interface{}\<close>. A \<^verbatim>\<open>float64\<close> is
  carried by the text that \<^verbatim>\<open>fmt\<close> prints for it under \<^verbatim>\<open>%v\<close> (floating point itself
  is not modelled; the program only ever prints numbers). A map is an association list
  whose order stands for the iteration order of the Go map; key lookup takes the first
  entry with the key. Strings are byte strings; paths are taken to be valid UTF-8, so
  that ranging over runes and appending them again gives the bytes back.
\<close>

datatype jvalue =
    Null
  | Boolean bool
  | Number string
  | String string
  | Array "jvalue list"
  | Object "(string \<times> jvalue) list"

text \<open>
  Every \<^verbatim>\<open>fmt.Errorf\<close> site and the sentinel \<^verbatim>\<open>ErrGetFromNullObj\<close> is a constructor;
  run-time panics are values too.
\<close>

datatype panic =
    IndexOutOfRange        \<comment> \<open>index out of range on a slice or string\<close>
  | NilTypeKind            \<comment> \<open>\<^verbatim>\<open>reflect.TypeOf(nil).Kind()\<close>\<close>
  | InterfaceConversion    \<comment> \<open>failed type assertion without the comma-ok form\<close>
  | SliceBounds            \<comment> \<open>\<^verbatim>\<open>reflect.Value.Slice\<close> with from > to\<close>
  | NilConstant            \<comment> \<open>\<^verbatim>\<open>res.Value.String()\<close> on a value that is no constant\<close>

datatype error =
    ErrGetFromNullObj              \<comment> \<open>"get attribute from null object"\<close>
  | ErrRootInFront                 \<comment> \<open>"$ or @ should in front of path"\<close>
  | ErrShouldStart                 \<comment> \<open>"should start with '$'"\<close>
  | ErrIndexEmpty                  \<comment> \<open>"cannot index on empty slice"\<close>
  | ErrRangeArgs                   \<comment> \<open>"range args length should be 2"\<close>
  | ErrNotSupported                \<comment> \<open>"expression don't support in filter"\<close>
  | ErrMultipleIndex               \<comment> \<open>"don't support multiple index in filter"\<close>
  | ErrTailLen string              \<comment> \<open>"len(tail) should >=3, ..."\<close>
  | ErrOneRange "string list"      \<comment> \<open>"only support one range(from, to): ..."\<close>
  | ErrAtoiSyntax string           \<comment> \<open>\<^verbatim>\<open>strconv.Atoi\<close>: invalid syntax\<close>
  | ErrAtoiRange string            \<comment> \<open>\<^verbatim>\<open>strconv.Atoi\<close>: value out of range\<close>
  | ErrKeyNotFound string          \<comment> \<open>"key error: ... not found in object"\<close>
  | ErrNotMap                      \<comment> \<open>"object is not map"\<close>
  | ErrNotSlice                    \<comment> \<open>"object is not Slice"\<close>
  | ErrIndexRange nat int          \<comment> \<open>"index out of range: len: ..., idx: ..."\<close>
  | ErrFromRange nat "int option"  \<comment> \<open>"index [from] out of range: len: ..., from: ..."\<close>
  | ErrToRange nat "int option"    \<comment> \<open>"index [to] out of range: len: ..., to: ..."\<close>
  | ErrFilterType                  \<comment> \<open>"don't support filter on this type: ..."\<close>
  | ErrInvalidChar nat             \<comment> \<open>"invalid char at ...: ..."\<close>
  | ErrNotImplemented              \<comment> \<open>"not implemented yet"\<close>
  | ErrOp                          \<comment> \<open>"op should only be <, <=, ==, >= and >"\<close>
  | ErrResult                      \<comment> \<open>"result should only be true or false"\<close>
  | ErrEval string                 \<comment> \<open>an error of \<^verbatim>\<open>types.Eval\<close>\<close>
  | Panic panic

section \<open>Library functions of \<^verbatim>\<open>strings\<close> and \<^verbatim>\<open>strconv\<close>\<close>

definition HasPrefix :: "string \<Rightarrow> string \<Rightarrow> bool" where
  "HasPrefix s p = (take (length p) s = p)"

definition HasSuffix :: "string \<Rightarrow> string \<Rightarrow> bool" where
  "HasSuffix s p = (length p \<le> length s \<and> drop (length s - length p) s = p)"

text \<open>\<^verbatim>\<open>strings.Contains\<close> and \<^verbatim>\<open>strings.Index\<close> are only called with a separator of one byte.\<close>

definition Contains :: "string \<Rightarrow> char \<Rightarrow> bool" where
  "Contains s c = (c \<in> set s)"

fun Index :: "string \<Rightarrow> char \<Rightarrow> nat option" where
  "Index [] c = None"
| "Index (x # xs) c = (if x = c then Some 0 else map_option Suc (Index xs c))"

fun Split :: "string \<Rightarrow> char \<Rightarrow> string list" where
  "Split [] c = [[]]"
| "Split (x # xs) c =
     (if x = c then [] # Split xs c
      else (case Split xs c of p # ps \<Rightarrow> (x # p) # ps | [] \<Rightarrow> [[x]]))"

definition Trim :: "string \<Rightarrow> string" where
  "Trim s = rev (dropWhile (\<lambda>c. c = CHR '' '') (rev (dropWhile (\<lambda>c. c = CHR '' '') s)))"

definition is_digit :: "char \<Rightarrow> bool" where
  "is_digit c = (CHR ''0'' \<le> c \<and> c \<le> CHR ''9'')"

definition digit_val :: "char \<Rightarrow> int" where
  "digit_val c = int (of_char c) - 48"

definition digits_val :: "string \<Rightarrow> int" where
  "digits_val ds = foldl (\<lambda>n c. 10 * n + digit_val c) 0 ds"

text \<open>
  \<^verbatim>\<open>strconv.Atoi\<close>: an optional sign, then one or more decimal digits; the value has to
  fit the 64-bit \<^verbatim>\<open>int\<close>.
\<close>

definition Atoi :: "string \<Rightarrow> error + int" where
  "Atoi s =
     (let neg = (s \<noteq> [] \<and> hd s = CHR ''-'');
          ds = (if s \<noteq> [] \<and> (hd s = CHR ''-'' \<or> hd s = CHR ''+'') then tl s else s)
      in if ds = [] \<or> \<not> list_all is_digit ds then Inl (ErrAtoiSyntax s)
         else (let n = (if neg then - digits_val ds else digits_val ds)
               in if n < - (2 ^ 63) \<or> 2 ^ 63 \<le> n then Inl (ErrAtoiRange s) else Inr n))"

section \<open>Tokenizer\<close>

text \<open>
  The body of the loop of \<^verbatim>\<open>tokenize\<close> for the bytes after the first: \<open>tokens\<close> and
  \<open>token\<close> are the two variables of the loop. \<^verbatim>\<open>tokens[len(tokens)-1]\<close> panics on an
  empty slice.
\<close>

fun tokenize_loop :: "string list \<Rightarrow> string \<Rightarrow> string \<Rightarrow> error + (string list \<times> string)" where
  "tokenize_loop tokens token [] = Inr (tokens, token)"
| "tokenize_loop tokens token0 (x # xs) =
     (let token = token0 @ [x] in
      if token = ''.'' then tokenize_loop tokens token xs
      else if token = ''..'' then
        (if tokens = [] then Inl (Panic IndexOutOfRange)
         else if last tokens \<noteq> ''*'' then tokenize_loop (tokens @ [''*'']) ''.'' xs
         else tokenize_loop tokens ''.'' xs)
      else if Contains token CHR ''['' then
        (if x = CHR '']'' \<and> \<not> HasSuffix token [CHR 0x5C, CHR '']''] then
           (if hd token = CHR ''.'' then tokenize_loop (tokens @ [tl token]) [] xs
            else tokenize_loop (tokens @ [token]) [] xs)
         else tokenize_loop tokens token xs)
      else
        (if x = CHR ''.'' then
           (if hd token = CHR ''.'' then tokenize_loop (tokens @ [butlast (tl token)]) ''.'' xs
            else tokenize_loop (tokens @ [butlast token]) ''.'' xs)
         else tokenize_loop tokens token xs))"

text \<open>The code after the loop: the pending text becomes the last token.\<close>

definition tokenize_finish :: "string list \<Rightarrow> string \<Rightarrow> error + string list" where
  "tokenize_finish tokens token0 =
     (if length token0 > 0 then
        (let token = (if hd token0 = CHR ''.'' then tl token0 else token0) in
         if token \<noteq> ''*'' then Inr (tokens @ [token])
         else if tokens = [] then Inl (Panic IndexOutOfRange)
         else if last tokens \<noteq> ''*'' then Inr (tokens @ [token])
         else Inr tokens)
      else Inr tokens)"

definition tokenize :: "string \<Rightarrow> error + string list" where
  "tokenize query =
     (case query of
        [] \<Rightarrow> Inr []
      | x # xs \<Rightarrow>
          if [x] = ''$'' \<or> [x] = ''@'' then
            (case tokenize_loop [[x]] [] xs of
               Inl e \<Rightarrow> Inl e
             | Inr (tokens, token) \<Rightarrow> tokenize_finish tokens token)
          else Inl ErrShouldStart)"

section \<open>Segment parser\<close>

text \<open>The payload \<^verbatim>\<open>args interface{}\<close> of a parsed token, by its dynamic type.\<close>

datatype args =
    ArgsNil
  | ArgsString string
  | ArgsRange "int option" "int option"
  | ArgsIdx "int list"

text \<open>The loop of the index branch: the first bound that is no integer ends it.\<close>

fun parse_idx :: "string list \<Rightarrow> error + int list" where
  "parse_idx [] = Inr []"
| "parse_idx (x # xs) =
     (case Atoi (Trim x) of
        Inl e \<Rightarrow> Inl e
      | Inr i \<Rightarrow> (case parse_idx xs of Inl e \<Rightarrow> Inl e | Inr res \<Rightarrow> Inr (i # res)))"

text \<open>
  \<^verbatim>\<open>parse_token\<close> returns four values, \<^verbatim>\<open>(op, key, args, err)\<close>; an error does not
  exclude the others, so the result is the tuple, with \<open>None\<close> for a nil \<^verbatim>\<open>err\<close>.
\<close>

definition parse_token :: "string \<Rightarrow> string \<times> string \<times> args \<times> error option" where
  "parse_token token =
     (if token = ''$'' then (''root'', ''$'', ArgsNil, None)
      else if token = ''*'' then (''scan'', ''*'', ArgsNil, None)
      else (case Index token CHR ''['' of
        None \<Rightarrow> (''key'', token, ArgsNil, None)
      | Some bracket_idx \<Rightarrow>
          (let key = take bracket_idx token;
               tail0 = drop bracket_idx token
           in if length tail0 < 3 then ([], key, ArgsNil, Some (ErrTailLen tail0))
              else (let tail = butlast (tl tail0) in
                if Contains tail CHR ''?'' then
                  (''filter'', key,
                   (if HasPrefix tail ''?('' \<and> HasSuffix tail '')''
                    then ArgsString (Trim (butlast (drop 2 tail))) else ArgsNil),
                   None)
                else if Contains tail CHR '':'' then
                  (let tails = Split tail CHR '':'' in
                   if length tails \<noteq> 2 then (''range'', key, ArgsNil, Some (ErrOneRange tails))
                   else (let frm = (case Atoi (Trim (tails ! 0)) of Inl e \<Rightarrow> None | Inr i \<Rightarrow> Some i);
                             r = Atoi (Trim (tails ! 1));
                             to = (case r of Inl e \<Rightarrow> None | Inr i \<Rightarrow> Some i);
                             err = (case r of Inl e \<Rightarrow> Some e | Inr i \<Rightarrow> None)
                         in (''range'', key, ArgsRange frm to, err)))
                else if tail = ''*'' then (''range'', key, ArgsRange None None, None)
                else (case parse_idx (Split tail CHR '','') of
                        Inl e \<Rightarrow> ([], [], ArgsNil, Some e)
                      | Inr res \<Rightarrow> (''idx'', key, ArgsIdx res, None))))))"

section \<open>Traversal primitives\<close>

text \<open>
  \<^verbatim>\<open>get_key\<close>: on a map the first entry with the key, on a slice the results of the
  elements on which the lookup succeeds. \<open>get_key_elems\<close> is the loop over the slice.
\<close>

fun get_key :: "jvalue \<Rightarrow> string \<Rightarrow> error + jvalue"
  and get_key_elems :: "jvalue list \<Rightarrow> string \<Rightarrow> jvalue list" where
  "get_key Null key = Inl ErrGetFromNullObj"
| "get_key (Object kvs) key =
     (case map_of kvs key of Some v \<Rightarrow> Inr v | None \<Rightarrow> Inl (ErrKeyNotFound key))"
| "get_key (Array xs) key = Inr (Array (get_key_elems xs key))"
| "get_key (Boolean b) key = Inl ErrNotMap"
| "get_key (Number n) key = Inl ErrNotMap"
| "get_key (String s) key = Inl ErrNotMap"
| "get_key_elems [] key = []"
| "get_key_elems (x # xs) key =
     (case get_key x key of
        Inr v \<Rightarrow> v # get_key_elems xs key
      | Inl e \<Rightarrow> get_key_elems xs key)"

fun get_idx :: "jvalue \<Rightarrow> int \<Rightarrow> error + jvalue" where
  "get_idx Null idx = Inl (Panic NilTypeKind)"
| "get_idx (Array xs) idx =
     (let length = int (length xs) in
      if idx \<ge> 0 then
        (if idx \<ge> length then Inl (ErrIndexRange (nat length) idx)
         else Inr (xs ! nat idx))
      else
        (let idx' = length + idx in
         if idx' < 0 then Inl (ErrIndexRange (nat length) idx)
         else Inr (xs ! nat idx')))"
| "get_idx v idx = Inl ErrNotSlice"

text \<open>
  The arithmetic of \<^verbatim>\<open>get_range\<close> is on the 64-bit \<^verbatim>\<open>int\<close>. With a length and a bound
  of that type only \<^verbatim>\<open>tv + 1\<close> can overflow; it is written with the wrap-around.
\<close>

definition wrap64 :: "int \<Rightarrow> int" where
  "wrap64 n = (n + 2 ^ 63) mod 2 ^ 64 - 2 ^ 63"

fun get_range :: "jvalue \<Rightarrow> int option \<Rightarrow> int option \<Rightarrow> error + jvalue" where
  "get_range Null frm to = Inl (Panic NilTypeKind)"
| "get_range (Array xs) frm to =
     (let length = int (length xs);
          frm' = (case frm of None \<Rightarrow> 0 | Some fv \<Rightarrow> if fv < 0 then length + fv else fv);
          to' = (case to of None \<Rightarrow> length
                 | Some tv \<Rightarrow> if tv < 0 then length + tv + 1 else wrap64 (tv + 1))
      in if frm' < 0 \<or> frm' \<ge> length then Inl (ErrFromRange (nat length) frm)
         else if to' < 0 \<or> to' > length then Inl (ErrToRange (nat length) to)
         else if frm' > to' then Inl (Panic SliceBounds)
         else Inr (Array (take (nat to' - nat frm') (drop (nat frm') xs))))"
| "get_range v frm to = Inl ErrNotSlice"

section \<open>Comparison\<close>

text \<open>
  \<^verbatim>\<open>fmt.Sprintf\<close> of one operand under the verb \<^verbatim>\<open>%s\<close> (\<open>Sprint True\<close>) and under
  \<^verbatim>\<open>%v\<close> (\<open>Sprint False\<close>). Under \<^verbatim>\<open>%s\<close> a value that is no string is printed as
  \<^verbatim>\<open>%!s(type=value)\<close>; the verb is passed down to the elements of a slice or a map,
  and a map is printed with its keys sorted.
\<close>

fun Join :: "string list \<Rightarrow> string \<Rightarrow> string" where
  "Join [] sep = []"
| "Join [x] sep = x"
| "Join (x # y # ys) sep = x @ sep @ Join (y # ys) sep"

fun Sprint :: "bool \<Rightarrow> jvalue \<Rightarrow> string" where
  "Sprint s Null = (if s then ''%!s(<nil>)'' else ''<nil>'')"
| "Sprint s (Boolean b) =
     (let t = (if b then ''true'' else ''false'')
      in if s then ''%!s(bool='' @ t @ '')'' else t)"
| "Sprint s (Number n) = (if s then ''%!s(float64='' @ n @ '')'' else n)"
| "Sprint s (String x) = x"
| "Sprint s (Array xs) = ''['' @ Join (map (Sprint s) xs) '' '' @ '']''"
| "Sprint s (Object kvs) =
     ''map['' @ Join (map (\<lambda>kt. fst kt @ '':'' @ snd kt)
                      (sort_key fst (map (\<lambda>kv. (fst kv, Sprint s (snd kv))) kvs))) '' '' @ '']''"

fun isNumber_loop :: "nat \<Rightarrow> string \<Rightarrow> bool" where
  "isNumber_loop dot_cnt [] = True"
| "isNumber_loop dot_cnt (c # cs) =
     (if c = CHR ''.'' then
        (if dot_cnt + 1 > 1 then False else isNumber_loop (dot_cnt + 1) cs)
      else if c \<ge> CHR ''0'' \<and> c \<le> CHR ''9'' then isNumber_loop dot_cnt cs
      else False)"

definition isNumber :: "string \<Rightarrow> bool" where
  "isNumber s = isNumber_loop 0 s"

text \<open>
  \<^verbatim>\<open>types.Eval\<close> belongs to the Go distribution, not to this package: the evaluator is a
  parameter. It takes the expression and gives an error or what \<^verbatim>\<open>cmp_any\<close> reads of
  the result: whether it is a value and, if it is a constant, the text of the constant.
\<close>

datatype type_and_value =
    NoValue              \<comment> \<open>\<^verbatim>\<open>IsValue()\<close> is false\<close>
  | NonConstant          \<comment> \<open>a value, \<^verbatim>\<open>Value\<close> is nil\<close>
  | Constant string      \<comment> \<open>a value, \<^verbatim>\<open>Value.String()\<close>\<close>

type_synonym evaluator = "string \<Rightarrow> error + type_and_value"

definition cmp_any :: "evaluator \<Rightarrow> jvalue \<Rightarrow> jvalue \<Rightarrow> string \<Rightarrow> error + bool" where
  \<open>cmp_any Eval obj1 obj2 op =
     (if \<not> (op = ''<'' \<or> op = ''<='' \<or> op = ''=='' \<or> op = ''>='' \<or> op = ''>'') then Inl ErrOp
      else
        (let exp =
           (if isNumber (Sprint True obj1) \<and> isNumber (Sprint True obj2)
            then Sprint False obj1 @ '' '' @ op @ '' '' @ Sprint False obj2
            else ''"'' @ Sprint False obj1 @ ''" '' @ op @ '' "'' @ Sprint False obj2 @ ''"'')
         in case Eval exp of
              Inl err \<Rightarrow> Inl err
            | Inr NoValue \<Rightarrow> Inl ErrResult
            | Inr NonConstant \<Rightarrow> Inl (Panic NilConstant)
            | Inr (Constant str) \<Rightarrow>
                if str \<noteq> ''false'' \<and> str \<noteq> ''true'' then Inl ErrResult
                else Inr (str = ''true'')))\<close>

section \<open>Filter mini-language\<close>

text \<open>
  The loop of \<^verbatim>\<open>parse_filter\<close>. \<open>commit\<close> is the inner \<^verbatim>\<open>switch stage\<close> that stores
  \<open>tmp\<close> in the slot of the stage. \<^verbatim>\<open>str_embrace\<close> is set by the first quote and never
  reset.
\<close>

definition commit :: "nat \<Rightarrow> string \<Rightarrow> string \<times> string \<times> string \<Rightarrow> string \<times> string \<times> string" where
  "commit stage tmp slots =
     (case slots of (lp, op, rp) \<Rightarrow>
        if stage = 0 then (tmp, op, rp)
        else if stage = 1 then (lp, tmp, rp)
        else if stage = 2 then (lp, op, tmp)
        else (lp, op, rp))"

fun parse_filter_loop ::
  "nat \<Rightarrow> string \<times> string \<times> string \<Rightarrow> string \<Rightarrow> nat \<Rightarrow> bool \<Rightarrow> string
     \<Rightarrow> error + ((string \<times> string \<times> string) \<times> string \<times> nat)" where
  "parse_filter_loop idx slots tmp stage str_embrace [] = Inr (slots, tmp, stage)"
| "parse_filter_loop idx slots tmp stage str_embrace (c # cs) =
     (if c = CHR 0x27 then
        (if \<not> str_embrace then parse_filter_loop (idx + 1) slots tmp stage True cs
         else parse_filter_loop (idx + 1) (commit stage tmp slots) [] stage str_embrace cs)
      else if c = CHR '' '' then
        (if str_embrace then parse_filter_loop (idx + 1) slots (tmp @ [c]) stage str_embrace cs
         else if stage + 1 > 2 then Inl (ErrInvalidChar idx)
         else parse_filter_loop (idx + 1) (commit stage tmp slots) [] (stage + 1) str_embrace cs)
      else parse_filter_loop (idx + 1) slots (tmp @ [c]) stage str_embrace cs)"

definition parse_filter :: "string \<Rightarrow> error + (string \<times> string \<times> string)" where
  "parse_filter filter_str =
     (case parse_filter_loop 0 ([], [], []) [] 0 False filter_str of
        Inl e \<Rightarrow> Inl e
      | Inr ((lp, op, rp), tmp, stage) \<Rightarrow>
          if tmp \<noteq> [] then
            (if stage = 0 then Inr (tmp, ''exists'', rp)
             else if stage = 1 then Inr (lp, tmp, rp)
             else if stage = 2 then Inr (lp, op, tmp)
             else Inr (lp, op, rp))
          else Inr (lp, op, rp))"

text \<open>
  The body of the loop of \<^verbatim>\<open>filter_get_from_explicit_path\<close>, for the current value
  and one step: it returns from the function with an error or assigns the next value.
  \<open>filter_steps\<close> is the loop over the steps after the root.
\<close>

definition filter_step :: "jvalue \<Rightarrow> string \<Rightarrow> error + jvalue" where
  "filter_step xobj s =
     (case parse_token s of (op, key, args, err) \<Rightarrow>
        if op = ''key'' then get_key xobj key
        else if op = ''idx'' then
          (case args of
             ArgsIdx is \<Rightarrow>
               if length is \<noteq> 1 then Inl ErrMultipleIndex
               else (case get_key xobj key of
                       Inl e \<Rightarrow> Inl e
                     | Inr v \<Rightarrow> get_idx v (is ! 0))
           | _ \<Rightarrow> Inl (Panic InterfaceConversion))
        else Inl ErrNotSupported)"

fun filter_steps :: "jvalue \<Rightarrow> string list \<Rightarrow> error + jvalue" where
  "filter_steps xobj [] = Inr xobj"
| "filter_steps xobj (s # ss) =
     (case filter_step xobj s of Inl e \<Rightarrow> Inl e | Inr v \<Rightarrow> filter_steps v ss)"

definition filter_get_from_explicit_path :: "jvalue \<Rightarrow> string \<Rightarrow> error + jvalue" where
  "filter_get_from_explicit_path obj path =
     (case tokenize path of
        Inl e \<Rightarrow> Inl e
      | Inr steps \<Rightarrow>
          (case steps of
             [] \<Rightarrow> Inl (Panic IndexOutOfRange)
           | s0 # rest \<Rightarrow>
               if s0 \<noteq> ''@'' \<and> s0 \<noteq> ''$'' then Inl ErrRootInFront
               else filter_steps obj rest))"

text \<open>
  \<^verbatim>\<open>eval_filter\<close> resolves an operand and does not look at the error it gets: a failed
  resolution leaves the operand nil. Only a panic gets through.
\<close>

definition operand :: "jvalue \<Rightarrow> jvalue \<Rightarrow> string \<Rightarrow> error + jvalue" where
  "operand obj root p =
     (let r = (if HasPrefix p ''@.'' then filter_get_from_explicit_path obj p
               else if HasPrefix p ''$.'' then filter_get_from_explicit_path root p
               else Inr (String p))
      in case r of
           Inr v \<Rightarrow> Inr v
         | Inl (Panic c) \<Rightarrow> Inl (Panic c)
         | Inl e \<Rightarrow> Inr Null)"

definition eval_filter ::
  "evaluator \<Rightarrow> jvalue \<Rightarrow> jvalue \<Rightarrow> string \<Rightarrow> string \<Rightarrow> string \<Rightarrow> error + bool" where
  "eval_filter Eval obj root lp op rp =
     (case operand obj root lp of
        Inl e \<Rightarrow> Inl e
      | Inr lp_v \<Rightarrow>
          if op = ''exists'' then Inr (lp_v \<noteq> Null)
          else if op = ''=~'' then Inl ErrNotImplemented
          else (case operand obj root rp of
                  Inl e \<Rightarrow> Inl e
                | Inr rp_v \<Rightarrow> cmp_any Eval lp_v rp_v op))"

text \<open>The loop of \<^verbatim>\<open>get_filtered\<close> over the elements: the first error ends it.\<close>

fun filter_elems ::
  "evaluator \<Rightarrow> jvalue \<Rightarrow> string \<Rightarrow> string \<Rightarrow> string \<Rightarrow> jvalue list \<Rightarrow> error + jvalue list" where
  "filter_elems Eval root lp op rp [] = Inr []"
| "filter_elems Eval root lp op rp (tmp # rest) =
     (case eval_filter Eval tmp root lp op rp of
        Inl e \<Rightarrow> Inl e
      | Inr ok \<Rightarrow>
          (case filter_elems Eval root lp op rp rest of
             Inl e \<Rightarrow> Inl e
           | Inr res \<Rightarrow> Inr (if ok then tmp # res else res)))"

definition get_filtered :: "evaluator \<Rightarrow> jvalue \<Rightarrow> jvalue \<Rightarrow> string \<Rightarrow> error + jvalue list" where
  "get_filtered Eval obj root filter_str =
     (case parse_filter filter_str of
        Inl e \<Rightarrow> Inl e
      | Inr (lp, op, rp) \<Rightarrow>
          (case obj of
             Null \<Rightarrow> Inl (Panic NilTypeKind)
           | Array xs \<Rightarrow> filter_elems Eval root lp op rp xs
           | Object kvs \<Rightarrow> filter_elems Eval root lp op rp (map snd kvs)
           | _ \<Rightarrow> Inl ErrFilterType))"

section \<open>Path evaluator\<close>

text \<open>The loop over the positions of a multiple index.\<close>

fun get_idx_each :: "jvalue \<Rightarrow> int list \<Rightarrow> error + jvalue list" where
  "get_idx_each xobj [] = Inr []"
| "get_idx_each xobj (x # xs) =
     (case get_idx xobj x of
        Inl e \<Rightarrow> Inl e
      | Inr tmp \<Rightarrow> (case get_idx_each xobj xs of Inl e \<Rightarrow> Inl e | Inr res \<Rightarrow> Inr (tmp # res)))"

text \<open>
  The body of the loop of \<^verbatim>\<open>JsonPathLookup\<close>, for one step: \<open>obj\<close> is the argument
  of the function and \<open>xobj\<close> the current value; the body returns from the function
  with an error or assigns the next value. The error that \<^verbatim>\<open>parse_token\<close> returns is
  not looked at. The error of \<^verbatim>\<open>get_filtered\<close> is assigned and not looked at either:
  the loop goes on with the nil slice that came with it. \<open>lookup_steps\<close> is the loop
  over the steps after the root.
\<close>

definition lookup_step :: "evaluator \<Rightarrow> jvalue \<Rightarrow> jvalue \<Rightarrow> string \<Rightarrow> error + jvalue" where
  "lookup_step Eval obj xobj s =
     (case parse_token s of (op, key, args, err) \<Rightarrow>
        if op = ''key'' then get_key xobj key
        else if op = ''idx'' then
          (case get_key xobj key of
             Inl e \<Rightarrow> Inl e
           | Inr v \<Rightarrow>
               (case args of
                  ArgsIdx is \<Rightarrow>
                    if length is > 1 then
                      (case get_idx_each v is of
                         Inl e \<Rightarrow> Inl e
                       | Inr res \<Rightarrow> Inr (Array res))
                    else if length is = 1 then get_idx v (is ! 0)
                    else Inl ErrIndexEmpty
                | _ \<Rightarrow> Inl (Panic InterfaceConversion)))
        else if op = ''range'' then
          (case get_key xobj key of
             Inl e \<Rightarrow> Inl e
           | Inr v \<Rightarrow>
               (case args of
                  ArgsRange frm to \<Rightarrow> get_range v frm to
                | _ \<Rightarrow> Inl ErrRangeArgs))
        else if op = ''filter'' then
          (case get_key xobj key of
             Inl e \<Rightarrow> Inl e
           | Inr v \<Rightarrow>
               (case args of
                  ArgsString filter_str \<Rightarrow>
                    (case get_filtered Eval v obj filter_str of
                       Inr res \<Rightarrow> Inr (Array res)
                     | Inl (Panic c) \<Rightarrow> Inl (Panic c)
                     | Inl e \<Rightarrow> Inr (Array []))
                | _ \<Rightarrow> Inl (Panic InterfaceConversion)))
        else Inl ErrNotSupported)"

fun lookup_steps :: "evaluator \<Rightarrow> jvalue \<Rightarrow> jvalue \<Rightarrow> string list \<Rightarrow> error + jvalue" where
  "lookup_steps Eval obj xobj [] = Inr xobj"
| "lookup_steps Eval obj xobj (s # ss) =
     (case lookup_step Eval obj xobj s of
        Inl e \<Rightarrow> Inl e
      | Inr v \<Rightarrow> lookup_steps Eval obj v ss)"

text \<open>
  \<^verbatim>\<open>deepcopy.Iface\<close> is imported from another package: in \<open>JsonPathLookup_with\<close> the
  copying function is a parameter, as the evaluator is. \<open>deepcopy_Iface\<close> is the copy
  that rebuilds the tree node by node, and \<open>JsonPathLookup\<close> the lookup with it.
\<close>

definition JsonPathLookup_with ::
  "evaluator \<Rightarrow> (jvalue \<Rightarrow> jvalue) \<Rightarrow> jvalue \<Rightarrow> string \<Rightarrow> error + jvalue" where
  "JsonPathLookup_with Eval Iface obj jpath =
     (case tokenize jpath of
        Inl err \<Rightarrow> Inl err
      | Inr steps \<Rightarrow>
          (case steps of
             [] \<Rightarrow> Inl (Panic IndexOutOfRange)
           | s0 # rest \<Rightarrow>
               if s0 \<noteq> ''@'' \<and> s0 \<noteq> ''$'' then Inl ErrRootInFront
               else lookup_steps Eval obj (Iface obj) rest))"

fun deepcopy_Iface :: "jvalue \<Rightarrow> jvalue" where
  "deepcopy_Iface (Array xs) = Array (map deepcopy_Iface xs)"
| "deepcopy_Iface (Object kvs) = Object (map (\<lambda>kv. (fst kv, deepcopy_Iface (snd kv))) kvs)"
| "deepcopy_Iface v = v"

definition JsonPathLookup :: "evaluator \<Rightarrow> jvalue \<Rightarrow> string \<Rightarrow> error + jvalue" where
  "JsonPathLookup Eval obj jpath = JsonPathLookup_with Eval deepcopy_Iface obj jpath"

section \<open>Sample inputs\<close>

text \<open>An evaluator that rejects every expression, and gives the expression back in the error.\<close>

definition reject_all :: evaluator where
  "reject_all exp = Inl (ErrEval exp)"


section \<open>Basic facts\<close>

lemma deepcopy_Iface_id: "deepcopy_Iface v = v"
proof (induction v)
  case (Array xs)
  then show ?case by (simp add: map_idI)
next
  case (Object kvs)
  have "map (\<lambda>kv. (fst kv, deepcopy_Iface (snd kv))) kvs = kvs"
  proof (rule map_idI)
    fix kv assume "kv \<in> set kvs"
    moreover have "snd kv \<in> Basic_BNFs.snds kv"
      by (cases kv) simp
    ultimately have "deepcopy_Iface (snd kv) = snd kv"
      by (rule Object.IH)
    then show "(fst kv, deepcopy_Iface (snd kv)) = kv" by simp
  qed
  then show ?case by simp
qed simp_all

lemma tokenize_loop_grows:
  "tokenize_loop tokens token xs = Inr (tokens', token') \<Longrightarrow> length tokens \<le> length tokens'"
proof (induction tokens token xs rule: tokenize_loop.induct)
  case (1 tokens token)
  then show ?case by simp
next
  case (2 tokens token0 x xs)
  then show ?case
    by (auto simp: Let_def split: if_splits)
qed

lemma tokenize_finish_grows:
  "tokenize_finish tokens token = Inr res \<Longrightarrow> length tokens \<le> length res"
  by (auto simp: tokenize_finish_def Let_def split: if_splits)

lemma tokenize_nonempty: "q \<noteq> [] \<Longrightarrow> tokenize q \<noteq> Inr []"
proof (cases q)
  case Nil
  assume "q \<noteq> []" with Nil show ?thesis by simp
next
  case (Cons x xs)
  show ?thesis
  proof
    assume h: "tokenize q = Inr []"
    from h Cons obtain tokens token where
      l: "tokenize_loop [[x]] [] xs = Inr (tokens, token)" and f: "tokenize_finish tokens token = Inr []"
      by (auto simp: tokenize_def split: if_splits sum.splits)
    from tokenize_loop_grows[OF l] tokenize_finish_grows[OF f] show False by simp
  qed
qed

lemma tokenize_no_root:
  "q \<noteq> [] \<Longrightarrow> hd q \<noteq> CHR ''$'' \<Longrightarrow> hd q \<noteq> CHR ''@'' \<Longrightarrow> tokenize q = Inl ErrShouldStart"
  by (cases q) (simp_all add: tokenize_def)

section \<open>The empty path\<close>

text \<open>
  C9. The empty path is the only one that \<^verbatim>\<open>tokenize\<close> turns into the empty list of
  tokens without an error; \<^verbatim>\<open>JsonPathLookup\<close> then reads \<^verbatim>\<open>steps[0]\<close> and panics with
  an index out of range. Every other path that does not start with \<^verbatim>\<open>$\<close> or \<^verbatim>\<open>@\<close> gets
  the error of the missing root marker, "should start with '$'".
\<close>

theorem empty_path_panics:
  "(tokenize q = Inr [] \<longleftrightarrow> q = [])
   \<and> JsonPathLookup Eval obj [] = Inl (Panic IndexOutOfRange)
   \<and> (q \<noteq> [] \<and> hd q \<noteq> CHR ''$'' \<and> hd q \<noteq> CHR ''@''
        \<longrightarrow> JsonPathLookup Eval obj q = Inl ErrShouldStart)"
proof (intro conjI impI)
  show "tokenize q = Inr [] \<longleftrightarrow> q = []"
    using tokenize_nonempty [of q] by (auto simp: tokenize_def)
  show "JsonPathLookup Eval obj [] = Inl (Panic IndexOutOfRange)"
    by (simp add: JsonPathLookup_def JsonPathLookup_with_def tokenize_def)
next
  assume "q \<noteq> [] \<and> hd q \<noteq> CHR ''$'' \<and> hd q \<noteq> CHR ''@''"
  then have "tokenize q = Inl ErrShouldStart" by (simp add: tokenize_no_root)
  then show "JsonPathLookup Eval obj q = Inl ErrShouldStart"
    by (simp add: JsonPathLookup_def JsonPathLookup_with_def)
qed

theorem empty_path_panics_witness:
  "tokenize ''store.book'' \<noteq> Inr []
   \<and> JsonPathLookup reject_all (Object []) [] = Inl (Panic IndexOutOfRange)
   \<and> JsonPathLookup reject_all (Object []) ''store.book'' = Inl ErrShouldStart"
  using empty_path_panics [of "''store.book''" reject_all "Object []"] by simp

section \<open>A filter that is not of the shape \<^verbatim>\<open>?(...)\<close>\<close>

lemma tokenize_filter_no_paren: "tokenize ''$.a[?x]'' = Inr [''$'', ''a[?x]'']"
  by code_simp

lemma parse_token_filter_no_paren: "parse_token ''a[?x]'' = (''filter'', ''a'', ArgsNil, None)"
  by code_simp

text \<open>
  C10. For the token \<^verbatim>\<open>a[?x]\<close> \<^verbatim>\<open>parse_token\<close> returns the op "filter" with a nil
  payload, and on every object that has the key \<^verbatim>\<open>a\<close> the lookup of \<^verbatim>\<open>$.a[?x]\<close> panics
  at the type assertion \<^verbatim>\<open>args.(string)\<close> instead of returning an error.
\<close>

theorem filter_without_parens_panics:
  "map_of kvs ''a'' = Some v \<Longrightarrow>
     parse_token ''a[?x]'' = (''filter'', ''a'', ArgsNil, None)
     \<and> JsonPathLookup Eval (Object kvs) ''$.a[?x]'' = Inl (Panic InterfaceConversion)"
  by (simp add: JsonPathLookup_def JsonPathLookup_with_def lookup_step_def
      tokenize_filter_no_paren parse_token_filter_no_paren deepcopy_Iface_id)

theorem filter_without_parens_panics_witness:
  "map_of [(''a'', Array [])] ''a'' = Some (Array [])
   \<and> JsonPathLookup reject_all (Object [(''a'', Array [])]) ''$.a[?x]'' = Inl (Panic InterfaceConversion)"
  using filter_without_parens_panics [of "[(''a'', Array [])]" "Array []" reject_all] by simp

section \<open>Key access on null\<close>

lemma tokenize_head_commit:
  "tokenize ''$.head_commit.author.username'' = Inr [''$'', ''head_commit'', ''author'', ''username'']"
  by code_simp

lemma parse_token_head_commit: "parse_token ''head_commit'' = (''key'', ''head_commit'', ArgsNil, None)"
  by code_simp

lemma parse_token_author: "parse_token ''author'' = (''key'', ''author'', ArgsNil, None)"
  by code_simp

text \<open>
  C6. \<^verbatim>\<open>get_key\<close> on null fails with \<^verbatim>\<open>ErrGetFromNullObj\<close> for every key; a key that
  is missing from an object gives the key-not-found error, which is a different error;
  and on every document whose \<^verbatim>\<open>head_commit\<close> is null the lookup of
  \<^verbatim>\<open>$.head_commit.author.username\<close> returns \<^verbatim>\<open>ErrGetFromNullObj\<close>.
\<close>

theorem null_parent_error:
  "get_key Null key = Inl ErrGetFromNullObj
   \<and> (map_of kvs key = None \<longrightarrow> get_key (Object kvs) key = Inl (ErrKeyNotFound key))
   \<and> ErrGetFromNullObj \<noteq> ErrKeyNotFound key
   \<and> (map_of kvs ''head_commit'' = Some Null \<longrightarrow>
        JsonPathLookup Eval (Object kvs) ''$.head_commit.author.username'' = Inl ErrGetFromNullObj)"
  by (simp add: JsonPathLookup_def JsonPathLookup_with_def lookup_step_def
      tokenize_head_commit parse_token_head_commit parse_token_author deepcopy_Iface_id)

theorem null_parent_error_witness:
  "get_key (Object [(''head_commit'', Null)]) ''author'' = Inl (ErrKeyNotFound ''author'')
   \<and> JsonPathLookup reject_all (Object [(''head_commit'', Null)]) ''$.head_commit.author.username''
       = Inl ErrGetFromNullObj"
  using null_parent_error [of "''author''" "[(''head_commit'', Null)]" reject_all] by simp

end
